theory Spec2Isabelle
  imports Complex_Main "HOL-Library.Signed_Division"
begin

section \<open>JavaScript numbers\<close>

text \<open>
  Prices, indicator values and thresholds are JavaScript numbers. A finite number is
  modelled by a real (rounding of IEEE doubles is not modelled). Division is the one
  operation of the source that leaves the finite numbers: \<^verbatim>\<open>x / 0\<close> is
  \<^verbatim>\<open>NaN\<close>, \<^verbatim>\<open>Infinity\<close> or \<^verbatim>\<open>-Infinity\<close>, never an error and
  never \<open>0\<close> as in HOL. The result of a division is therefore a \<open>jsnum\<close>. A zero
  divisor is the positive zero that the price fields are initialised with.
\<close>

datatype jsnum = Fin real | PosInf | NegInf | NaN

definition jsdiv :: "real \<Rightarrow> real \<Rightarrow> jsnum" where
  "jsdiv a b =
     (if b = 0 then (if a = 0 then NaN else if 0 < a then PosInf else NegInf)
      else Fin (a / b))"

text \<open>\<^verbatim>\<open>x > y\<close> and \<^verbatim>\<open>x < y\<close> for a possibly non-finite \<open>x\<close> and a finite \<open>y\<close>;
  every comparison with \<^verbatim>\<open>NaN\<close> is false.\<close>

fun js_gt :: "jsnum \<Rightarrow> real \<Rightarrow> bool" where
  "js_gt (Fin x) y = (y < x)"
| "js_gt PosInf y = True"
| "js_gt NegInf y = False"
| "js_gt NaN y = False"

fun js_lt :: "jsnum \<Rightarrow> real \<Rightarrow> bool" where
  "js_lt (Fin x) y = (x < y)"
| "js_lt PosInf y = False"
| "js_lt NegInf y = True"
| "js_lt NaN y = False"

text \<open>\<^verbatim>\<open>x * c\<close> for a finite \<open>c\<close>.\<close>

fun js_times :: "jsnum \<Rightarrow> real \<Rightarrow> jsnum" where
  "js_times (Fin x) c = Fin (x * c)"
| "js_times PosInf c = (if c = 0 then NaN else if 0 < c then PosInf else NegInf)"
| "js_times NegInf c = (if c = 0 then NaN else if 0 < c then NegInf else PosInf)"
| "js_times NaN c = NaN"

text \<open>Truthiness of a value that is \<^verbatim>\<open>null\<close> or a string, and of one that is
  \<^verbatim>\<open>null\<close> or a finite number; \<^verbatim>\<open>ToNumber(null)\<close> is \<open>0\<close>.\<close>

fun truthy_str :: "string option \<Rightarrow> bool" where
  "truthy_str None = False"
| "truthy_str (Some s) = (s \<noteq> [])"

fun truthy_num :: "real option \<Rightarrow> bool" where
  "truthy_num None = False"
| "truthy_num (Some x) = (x \<noteq> 0)"

fun to_number :: "real option \<Rightarrow> real" where
  "to_number None = 0"
| "to_number (Some x) = x"

section \<open>Configuration (config/index.js)\<close>

definition trading_minProfitThreshold :: real where
  "trading_minProfitThreshold = 6 / 1000"

definition trading_trailingStopLoss :: real where
  "trading_trailingStopLoss = 5 / 1000"

definition trading_maxSlippage :: real where
  "trading_maxSlippage = 2 / 1000"

definition rsi_oversold :: real where
  "rsi_oversold = 30"

definition rsi_overbought :: real where
  "rsi_overbought = 70"

section \<open>IndicatorCalculator\<close>

record indicator_values =
  rsi :: "real option"
  ema :: "real option"
  previousRsi :: "real option"
  previousEma :: "real option"

definition isRsiOversold :: "indicator_values \<Rightarrow> bool" where
  "isRsiOversold ind = (case rsi ind of None \<Rightarrow> False | Some r \<Rightarrow> r < rsi_oversold)"

definition isRsiOverbought :: "indicator_values \<Rightarrow> bool" where
  "isRsiOverbought ind = (case rsi ind of None \<Rightarrow> False | Some r \<Rightarrow> rsi_overbought < r)"

definition isPriceAboveEma :: "indicator_values \<Rightarrow> real \<Rightarrow> bool" where
  "isPriceAboveEma ind currentPrice =
     (case ema ind of None \<Rightarrow> False | Some e \<Rightarrow> e < currentPrice)"

definition isPriceBelowEma :: "indicator_values \<Rightarrow> real \<Rightarrow> bool" where
  "isPriceBelowEma ind currentPrice =
     (case ema ind of None \<Rightarrow> False | Some e \<Rightarrow> currentPrice < e)"

section \<open>SignalDetector\<close>

text \<open>
  The detector reads three singleton services: \<^verbatim>\<open>BinanceService.getCurrentPrice()\<close>,
  \<^verbatim>\<open>DexPriceMonitor.getCurrentPrice()\<close> and the indicator values held by
  \<^verbatim>\<open>IndicatorCalculator\<close>. Both prices start at \<open>0\<close> before the first update.
\<close>

record services =
  binance_currentPrice :: real
  dex_currentPrice :: real
  calc_indicators :: indicator_values

record signal_data =
  sig_binancePrice :: real
  sig_dexPrice :: real
  sig_rsi :: "real option"
  sig_ema :: "real option"
  sig_priceGap :: jsnum

record signal =
  sig_type :: "string option"
  sig_timestamp :: "nat option"
  sig_data :: "signal_data option"

text \<open>A callback slot holds \<^verbatim>\<open>null\<close> or a function; the model records whether one is
  registered and returns the list of arguments the callback was called with.\<close>

record signal_detector =
  lastSignal :: signal
  onBuySignal :: bool
  onSellSignal :: bool

definition checkBuySignal ::
  "nat \<Rightarrow> services \<Rightarrow> signal_detector \<Rightarrow> string option \<Rightarrow> bool \<times> signal_detector \<times> signal list" where
  "checkBuySignal now env det currentPosition =
     (if currentPosition \<noteq> None then (False, det, [])
      else
        let binancePrice = binance_currentPrice env;
            dexPrice = dex_currentPrice env;
            rsiOversold = isRsiOversold (calc_indicators env);
            priceAboveEma = isPriceAboveEma (calc_indicators env) binancePrice;
            priceGapPercent = jsdiv (binancePrice - dexPrice) dexPrice;
            sufficientGap = js_gt priceGapPercent trading_minProfitThreshold
        in if rsiOversold \<and> priceAboveEma \<and> sufficientGap then
             let s = \<lparr> sig_type = Some ''buy'', sig_timestamp = Some now,
                       sig_data = Some \<lparr> sig_binancePrice = binancePrice, sig_dexPrice = dexPrice,
                                          sig_rsi = rsi (calc_indicators env),
                                          sig_ema = ema (calc_indicators env),
                                          sig_priceGap = priceGapPercent \<rparr> \<rparr>
             in (True, det\<lparr>lastSignal := s\<rparr>, if onBuySignal det then [s] else [])
           else (False, det, []))"

definition checkSellSignal ::
  "nat \<Rightarrow> services \<Rightarrow> signal_detector \<Rightarrow> string option \<Rightarrow> bool \<times> signal_detector \<times> signal list" where
  "checkSellSignal now env det currentPosition =
     (if currentPosition \<noteq> Some ''long'' then (False, det, [])
      else
        let binancePrice = binance_currentPrice env;
            dexPrice = dex_currentPrice env;
            rsiOverbought = isRsiOverbought (calc_indicators env);
            priceBelowEma = isPriceBelowEma (calc_indicators env) binancePrice;
            priceGapPercent = jsdiv (dexPrice - binancePrice) binancePrice;
            sufficientGap = js_gt priceGapPercent trading_minProfitThreshold
        in if rsiOverbought \<and> priceBelowEma \<and> sufficientGap then
             let s = \<lparr> sig_type = Some ''sell'', sig_timestamp = Some now,
                       sig_data = Some \<lparr> sig_binancePrice = binancePrice, sig_dexPrice = dexPrice,
                                          sig_rsi = rsi (calc_indicators env),
                                          sig_ema = ema (calc_indicators env),
                                          sig_priceGap = priceGapPercent \<rparr> \<rparr>
             in (True, det\<lparr>lastSignal := s\<rparr>, if onSellSignal det then [s] else [])
           else (False, det, []))"

text \<open>The detector as constructed, and the state of the three services with reference
  price \<open>b\<close>, DEX price \<open>d\<close>, RSI \<open>r\<close> and EMA \<open>e\<close>.\<close>

definition new_signal_detector :: signal_detector where
  "new_signal_detector =
     \<lparr> lastSignal = \<lparr> sig_type = None, sig_timestamp = None, sig_data = None \<rparr>,
       onBuySignal = False, onSellSignal = False \<rparr>"

definition mk_services :: "real \<Rightarrow> real \<Rightarrow> real option \<Rightarrow> real option \<Rightarrow> services" where
  "mk_services b d r e =
     \<lparr> binance_currentPrice = b, dex_currentPrice = d,
       calc_indicators = \<lparr> rsi = r, ema = e, previousRsi = None, previousEma = None \<rparr> \<rparr>"

section \<open>PositionManager\<close>

text \<open>
  \<^verbatim>\<open>currentPosition\<close> is \<^verbatim>\<open>null\<close> or the string \<^verbatim>\<open>'long'\<close>; \<^verbatim>\<open>entryPrice\<close> and
  \<^verbatim>\<open>highestPrice\<close> are \<^verbatim>\<open>null\<close> or a number. Log lines are recorded with their level
  and the constant part of their text; a callback call is recorded with its argument.
\<close>

datatype log_level = Info | Warn | Debug

record position_opened =
  opened_type :: string
  opened_entryPrice :: real
  opened_timestamp :: nat

record position_closed =
  closed_type :: string
  closed_entryPrice :: "real option"
  closed_exitPrice :: real
  closed_profitPercent :: jsnum
  closed_timestamp :: nat

datatype pm_event =
    Log log_level string
  | PositionOpened position_opened
  | PositionClosed position_closed

record position_manager =
  currentPosition :: "string option"
  entryPrice :: "real option"
  highestPrice :: "real option"
  onPositionOpened :: bool
  onPositionClosed :: bool

definition new_position_manager :: position_manager where
  "new_position_manager =
     \<lparr> currentPosition = None, entryPrice = None, highestPrice = None,
       onPositionOpened = False, onPositionClosed = False \<rparr>"

definition openPosition :: "nat \<Rightarrow> position_manager \<Rightarrow> real \<Rightarrow> position_manager \<times> pm_event list" where
  "openPosition now pm entry =
     (pm\<lparr> currentPosition := Some ''long'', entryPrice := Some entry, highestPrice := Some entry \<rparr>,
      Log Info ''Opened long position'' #
        (if onPositionOpened pm
         then [PositionOpened \<lparr> opened_type = ''long'', opened_entryPrice = entry,
                                 opened_timestamp = now \<rparr>]
         else []))"

definition closePosition :: "nat \<Rightarrow> position_manager \<Rightarrow> real \<Rightarrow> position_manager \<times> pm_event list" where
  "closePosition now pm exitPrice =
     (case currentPosition pm of
        None \<Rightarrow> (pm, [Log Warn ''No position to close''])
      | Some positionType \<Rightarrow>
          if positionType = [] then (pm, [Log Warn ''No position to close''])
          else
            let entry = entryPrice pm;
                profitPercent =
                  js_times (jsdiv (exitPrice - to_number entry) (to_number entry)) 100
            in (pm\<lparr> currentPosition := None, entryPrice := None, highestPrice := None \<rparr>,
                [Log Info ''Closed position'', Log Info ''Trade completed''] @
                  (if onPositionClosed pm
                   then [PositionClosed \<lparr> closed_type = positionType, closed_entryPrice = entry,
                                           closed_exitPrice = exitPrice,
                                           closed_profitPercent = profitPercent,
                                           closed_timestamp = now \<rparr>]
                   else [])))"

text \<open>\<^verbatim>\<open>updateHighestPrice\<close>: the comparison \<^verbatim>\<open>currentPrice > this.highestPrice\<close> reads
  \<^verbatim>\<open>null\<close> as \<open>0\<close>. Its debug line is not recorded.\<close>

definition updateHighestPrice :: "position_manager \<Rightarrow> real \<Rightarrow> position_manager" where
  "updateHighestPrice pm currentPrice =
     (if truthy_str (currentPosition pm) \<and> to_number (highestPrice pm) < currentPrice
      then pm\<lparr> highestPrice := Some currentPrice \<rparr>
      else pm)"

definition shouldTriggerStopLoss :: "position_manager \<Rightarrow> real \<Rightarrow> bool" where
  "shouldTriggerStopLoss pm currentPrice =
     (if \<not> truthy_str (currentPosition pm) \<or> \<not> truthy_num (highestPrice pm) then False
      else
        let stopLossPrice = to_number (highestPrice pm) * (1 - trading_trailingStopLoss)
        in currentPrice < stopLossPrice)"

text \<open>A run of price updates, in the order they arrive.\<close>

definition price_updates :: "position_manager \<Rightarrow> real list \<Rightarrow> position_manager" where
  "price_updates pm ps = foldl updateHighestPrice pm ps"

section \<open>SlippageController\<close>

text \<open>
  Amounts are \<^verbatim>\<open>BigNumber\<close>s: unbounded integers counting the token's smallest unit.
  \<^verbatim>\<open>div\<close> truncates towards zero. The factor is
  \<^verbatim>\<open>Math.floor((1 - config.trading.maxSlippage) * 10000)\<close>. The result does not depend
  on the trade type, which is only logged and passed to the callback.
\<close>

definition applySlippage :: "int \<Rightarrow> string \<Rightarrow> int" where
  "applySlippage amount tradeType =
     (let slippageTolerance = 1 - trading_maxSlippage
      in (amount * \<lfloor>slippageTolerance * 10000\<rfloor>) sdiv 10000)"

text \<open>\<^verbatim>\<open>ethers\<close>' \<^verbatim>\<open>parseUnits\<close> and \<^verbatim>\<open>formatUnits\<close> convert between a quantity of whole
  tokens and the integer count of smallest units, for a token with \<open>d\<close> decimals
  (8 for WBTC, 18 for BUSD). \<open>parseUnits\<close> is applied here to whole numbers only.\<close>

definition parseUnits :: "int \<Rightarrow> nat \<Rightarrow> int" where
  "parseUnits tokens d = tokens * 10 ^ d"

definition formatUnits :: "int \<Rightarrow> nat \<Rightarrow> real" where
  "formatUnits units d = real_of_int units / 10 ^ d"

section \<open>TaapiService and DexPriceMonitor\<close>

record taapi_data =
  taapi_price :: real
  taapi_rsi :: "real option"
  taapi_ema :: "real option"
  lastUpdated :: "nat option"

definition taapi_isRsiOversold :: "taapi_data \<Rightarrow> bool" where
  "taapi_isRsiOversold cur = (case taapi_rsi cur of None \<Rightarrow> False | Some r \<Rightarrow> r < rsi_oversold)"

definition taapi_isRsiOverbought :: "taapi_data \<Rightarrow> bool" where
  "taapi_isRsiOverbought cur =
     (case taapi_rsi cur of None \<Rightarrow> False | Some r \<Rightarrow> rsi_overbought < r)"

definition taapi_isPriceAboveEma :: "taapi_data \<Rightarrow> bool" where
  "taapi_isPriceAboveEma cur =
     (case taapi_ema cur of None \<Rightarrow> False | Some e \<Rightarrow> e < taapi_price cur)"

definition taapi_isPriceBelowEma :: "taapi_data \<Rightarrow> bool" where
  "taapi_isPriceBelowEma cur =
     (case taapi_ema cur of None \<Rightarrow> False | Some e \<Rightarrow> taapi_price cur < e)"

text \<open>
  \<^verbatim>\<open>DexPriceMonitor\<close> holds \<^verbatim>\<open>this.price\<close>, set to \<open>0\<close> by the constructor.
  \<^verbatim>\<open>updatePrice\<close> asks the router for a quote: with a quote it stores the price, without
  one it throws and leaves the price as it was. \<^verbatim>\<open>initialize\<close> catches that error and
  returns \<^verbatim>\<open>false\<close>; the entry point does not look at the returned value.
\<close>

definition new_dex_price :: real where
  "new_dex_price = 0"

definition dex_updatePrice :: "real option \<Rightarrow> real \<Rightarrow> real option" where
  "dex_updatePrice quote price = (case quote of None \<Rightarrow> None | Some p \<Rightarrow> Some p)"

definition dex_initialize :: "real option \<Rightarrow> real \<Rightarrow> real \<times> bool" where
  "dex_initialize quote price =
     (case dex_updatePrice quote price of None \<Rightarrow> (price, False) | Some p \<Rightarrow> (p, True))"

text \<open>\<^verbatim>\<open>DexPriceMonitor.calculatePriceDifference\<close>, with \<open>price\<close> the monitor's own
  \<^verbatim>\<open>this.price\<close>.\<close>

definition calculatePriceDifference :: "real \<Rightarrow> real \<Rightarrow> jsnum" where
  "calculatePriceDifference price binancePrice =
     (if price = 0 \<or> binancePrice = 0 then Fin 0
      else jsdiv (binancePrice - price) price)"

definition dex_isPotentialBuyOpportunity :: "real \<Rightarrow> real \<Rightarrow> bool" where
  "dex_isPotentialBuyOpportunity price binancePrice =
     (let priceDiff = calculatePriceDifference price binancePrice
      in js_gt priceDiff trading_minProfitThreshold)"

definition dex_isPotentialSellOpportunity :: "real \<Rightarrow> real \<Rightarrow> bool" where
  "dex_isPotentialSellOpportunity price binancePrice =
     (let priceDiff = calculatePriceDifference price binancePrice
      in js_lt priceDiff (- trading_minProfitThreshold))"

section \<open>MonitoringService\<close>

record centralized_data =
  centralized_price :: real
  centralized_rsi :: "real option"
  centralized_ema :: "real option"

record market_data =
  centralized :: centralized_data
  dex_price :: real
  priceDifference :: jsnum
  timestamp :: "nat option"

definition new_market_data :: market_data where
  "new_market_data =
     \<lparr> centralized = \<lparr> centralized_price = 0, centralized_rsi = None, centralized_ema = None \<rparr>,
       dex_price = 0, priceDifference = Fin 0, timestamp = None \<rparr>"

definition updatePriceDifference :: "nat \<Rightarrow> market_data \<Rightarrow> market_data" where
  "updatePriceDifference now md =
     (if centralized_price (centralized md) = 0 \<or> dex_price md = 0
      then md\<lparr> priceDifference := Fin 0 \<rparr>
      else md\<lparr> priceDifference :=
                  jsdiv (centralized_price (centralized md) - dex_price md) (dex_price md) \<rparr>)
     \<lparr> timestamp := Some now \<rparr>"

text \<open>The two handlers registered by \<^verbatim>\<open>setupDataFlow\<close>.\<close>

definition onDataUpdate :: "nat \<Rightarrow> market_data \<Rightarrow> taapi_data \<Rightarrow> market_data" where
  "onDataUpdate now md d =
     updatePriceDifference now
       (md\<lparr> centralized := \<lparr> centralized_price = taapi_price d, centralized_rsi = taapi_rsi d,
                               centralized_ema = taapi_ema d \<rparr> \<rparr>)"

definition onPriceUpdate :: "nat \<Rightarrow> market_data \<Rightarrow> real \<Rightarrow> market_data" where
  "onPriceUpdate now md p = updatePriceDifference now (md\<lparr> dex_price := p \<rparr>)"

definition isPotentialBuyOpportunity :: "market_data \<Rightarrow> taapi_data \<Rightarrow> bool" where
  "isPotentialBuyOpportunity md cur =
     (let priceDiffCheck = js_gt (priceDifference md) trading_minProfitThreshold;
          rsiCheck = taapi_isRsiOversold cur;
          emaCheck = taapi_isPriceBelowEma cur
      in priceDiffCheck \<and> (rsiCheck \<or> emaCheck))"

definition isPotentialSellOpportunity :: "market_data \<Rightarrow> taapi_data \<Rightarrow> bool" where
  "isPotentialSellOpportunity md cur =
     (let priceDiffCheck = js_lt (priceDifference md) (- trading_minProfitThreshold);
          rsiCheck = taapi_isRsiOverbought cur;
          emaCheck = taapi_isPriceAboveEma cur
      in priceDiffCheck \<and> (rsiCheck \<or> emaCheck))"

text \<open>
  Modelled from the spec: the staleness test \<^verbatim>\<open>isStale()\<close>, which the repository does not
  contain. A component last updated at \<open>t\<close> is stale at time \<open>now\<close> when it was never
  updated or more than \<open>window\<close> time units have passed since \<open>t\<close>; a snapshot is stale when
  its reference side or its DEX side is.
\<close>

definition isStale :: "nat \<Rightarrow> nat \<Rightarrow> nat option \<Rightarrow> bool" where
  "isStale window now updated =
     (case updated of None \<Rightarrow> True | Some t \<Rightarrow> t + window < now)"

definition snapshot_isStale :: "nat \<Rightarrow> nat \<Rightarrow> market_data \<Rightarrow> taapi_data \<Rightarrow> bool" where
  "snapshot_isStale window now md cur =
     (isStale window now (lastUpdated cur) \<or> isStale window now (timestamp md))"

section \<open>Objects and references: the snapshot returned by getCurrentData\<close>

text \<open>
  \<^verbatim>\<open>marketData\<close> is an object whose \<^verbatim>\<open>centralized\<close> and \<^verbatim>\<open>dex\<close> properties refer
  to further objects. To follow what a consumer of \<^verbatim>\<open>getCurrentData()\<close> can reach,
  objects live in a store: an object is a map from property names to values, and a value
  is a number, \<^verbatim>\<open>null\<close>, a date or a reference to an object. The spread
  \<^verbatim>\<open>{ ...o }\<close> allocates a new object with the properties of \<open>o\<close> and the same values,
  references included.
\<close>

datatype jsval = VNumber jsnum | VNull | VDate nat | VRef nat

type_synonym jsobject = "string \<rightharpoonup> jsval"

record store =
  objects :: "nat \<rightharpoonup> jsobject"
  next_addr :: nat

definition empty_store :: store where
  "empty_store = \<lparr> objects = Map.empty, next_addr = 0 \<rparr>"

definition alloc :: "store \<Rightarrow> jsobject \<Rightarrow> store \<times> nat" where
  "alloc st ob =
     (st\<lparr> objects := (objects st)(next_addr st \<mapsto> ob), next_addr := Suc (next_addr st) \<rparr>,
      next_addr st)"

definition get_prop :: "store \<Rightarrow> nat \<Rightarrow> string \<Rightarrow> jsval option" where
  "get_prop st a k = (case objects st a of None \<Rightarrow> None | Some ob \<Rightarrow> ob k)"

definition set_prop :: "store \<Rightarrow> nat \<Rightarrow> string \<Rightarrow> jsval \<Rightarrow> store" where
  "set_prop st a k v =
     (case objects st a of
        None \<Rightarrow> st
      | Some ob \<Rightarrow> st\<lparr> objects := (objects st)(a \<mapsto> ob(k \<mapsto> v)) \<rparr>)"

text \<open>Reading and assigning \<^verbatim>\<open>a.k1.k2\<close> and \<^verbatim>\<open>a.k1.k2.k3\<close>; \<open>None\<close> where JavaScript
  would throw or read \<^verbatim>\<open>undefined\<close>.\<close>

definition get_prop2 :: "store \<Rightarrow> nat \<Rightarrow> string \<Rightarrow> string \<Rightarrow> jsval option" where
  "get_prop2 st a k1 k2 =
     (case get_prop st a k1 of Some (VRef b) \<Rightarrow> get_prop st b k2 | _ \<Rightarrow> None)"

definition get_prop3 :: "store \<Rightarrow> nat \<Rightarrow> string \<Rightarrow> string \<Rightarrow> string \<Rightarrow> jsval option" where
  "get_prop3 st a k1 k2 k3 =
     (case get_prop st a k1 of Some (VRef b) \<Rightarrow> get_prop2 st b k2 k3 | _ \<Rightarrow> None)"

definition set_prop2 :: "store \<Rightarrow> nat \<Rightarrow> string \<Rightarrow> string \<Rightarrow> jsval \<Rightarrow> store option" where
  "set_prop2 st a k1 k2 v =
     (case get_prop st a k1 of Some (VRef b) \<Rightarrow> Some (set_prop st b k2 v) | _ \<Rightarrow> None)"

definition set_prop3 :: "store \<Rightarrow> nat \<Rightarrow> string \<Rightarrow> string \<Rightarrow> string \<Rightarrow> jsval \<Rightarrow> store option" where
  "set_prop3 st a k1 k2 k3 v =
     (case get_prop st a k1 of Some (VRef b) \<Rightarrow> set_prop2 st b k2 k3 v | _ \<Rightarrow> None)"

text \<open>The constructor builds \<^verbatim>\<open>this.marketData\<close>; the service is identified by the
  address of that object, which is never reassigned.\<close>

definition new_MonitoringService :: "store \<Rightarrow> store \<times> nat" where
  "new_MonitoringService st =
     (let (st1, ind) = alloc st [''rsi'' \<mapsto> VNull, ''ema'' \<mapsto> VNull];
          (st2, cen) = alloc st1 [''price'' \<mapsto> VNumber (Fin 0), ''indicators'' \<mapsto> VRef ind];
          (st3, dex) = alloc st2 [''price'' \<mapsto> VNumber (Fin 0)]
      in alloc st3 [''centralized'' \<mapsto> VRef cen, ''dex'' \<mapsto> VRef dex,
                    ''priceDifference'' \<mapsto> VNumber (Fin 0), ''timestamp'' \<mapsto> VNull])"

definition getCurrentData :: "store \<Rightarrow> nat \<Rightarrow> (store \<times> nat) option" where
  "getCurrentData st marketData =
     (case objects st marketData of None \<Rightarrow> None | Some ob \<Rightarrow> Some (alloc st ob))"

text \<open>What the service itself reads from its market data.\<close>

definition internal_view :: "store \<Rightarrow> nat \<Rightarrow> jsval option list" where
  "internal_view st marketData =
     [get_prop2 st marketData ''centralized'' ''price'',
      get_prop3 st marketData ''centralized'' ''indicators'' ''rsi'',
      get_prop3 st marketData ''centralized'' ''indicators'' ''ema'',
      get_prop2 st marketData ''dex'' ''price'',
      get_prop st marketData ''priceDifference'',
      get_prop st marketData ''timestamp'']"

text \<open>Three consumers. Each takes a snapshot and assigns to it:
  \<^verbatim>\<open>data.dex.price = v\<close>, \<^verbatim>\<open>data.centralized.indicators.rsi = v\<close> and
  \<^verbatim>\<open>data.priceDifference = v\<close>.\<close>

definition consumer_sets_dex_price :: "store \<Rightarrow> nat \<Rightarrow> real \<Rightarrow> store option" where
  "consumer_sets_dex_price st marketData v =
     (case getCurrentData st marketData of
        None \<Rightarrow> None
      | Some (st', data) \<Rightarrow> set_prop2 st' data ''dex'' ''price'' (VNumber (Fin v)))"

definition consumer_sets_rsi :: "store \<Rightarrow> nat \<Rightarrow> real \<Rightarrow> store option" where
  "consumer_sets_rsi st marketData v =
     (case getCurrentData st marketData of
        None \<Rightarrow> None
      | Some (st', data) \<Rightarrow>
          set_prop3 st' data ''centralized'' ''indicators'' ''rsi'' (VNumber (Fin v)))"

definition consumer_sets_priceDifference :: "store \<Rightarrow> nat \<Rightarrow> real \<Rightarrow> store option" where
  "consumer_sets_priceDifference st marketData v =
     (case getCurrentData st marketData of
        None \<Rightarrow> None
      | Some (st', data) \<Rightarrow> Some (set_prop st' data ''priceDifference'' (VNumber (Fin v))))"

section \<open>TradeExecutor under the event loop\<close>

text \<open>
  \<^verbatim>\<open>executeBuy\<close> and \<^verbatim>\<open>executeSell\<close> are \<^verbatim>\<open>async\<close>: a call runs until its first
  \<^verbatim>\<open>await\<close>, is suspended there, and is resumed when the awaited promise settles;
  between two \<^verbatim>\<open>await\<close>s nothing else runs. A call in progress is therefore a side and
  the \<^verbatim>\<open>await\<close> it is suspended at, together with the local values computed so far:
  \<^item> \<open>AwaitBalance\<close>: the trade amount (buy) or the WBTC balance (sell);
  \<^item> \<open>AwaitAmountsOut amountIn\<close>: the router's quote;
  \<^item> \<open>AwaitSwap amountIn expected minAmountOut\<close>: the submitted swap;
  \<^item> \<open>AwaitReceipt amountIn expected txHash\<close>: the confirmation.
  The environment chooses which suspended call is resumed next and with what. A trade
  record keeps the amounts as integers where the source formats them as decimal strings;
  log lines and the \<^verbatim>\<open>onTradeExecuted\<close> and \<^verbatim>\<open>onTradeError\<close> callbacks are not
  recorded.
\<close>

datatype stage =
    AwaitBalance
  | AwaitAmountsOut int
  | AwaitSwap int int int
  | AwaitReceipt int int nat

datatype settled = Resolved int | Rejected

record trade_record =
  trade_type :: string
  trade_txHash :: nat
  trade_amountIn :: int
  trade_amountOut :: int
  trade_timestamp :: nat
  trade_blockNumber :: nat

datatype outcome = ReturnedFalse | ReturnedRecord trade_record | Thrown

record executor =
  transactions :: "trade_record list"
  in_progress :: "(string \<times> stage) list"

definition new_executor :: executor where
  "new_executor = \<lparr> transactions = [], in_progress = [] \<rparr>"

text \<open>Entering either function: the body starts at once, whatever else is in progress,
  and suspends at its first \<^verbatim>\<open>await\<close>.\<close>

definition executeBuy :: "executor \<Rightarrow> executor" where
  "executeBuy ex = ex\<lparr> in_progress := in_progress ex @ [(''buy'', AwaitBalance)] \<rparr>"

definition executeSell :: "executor \<Rightarrow> executor" where
  "executeSell ex = ex\<lparr> in_progress := in_progress ex @ [(''sell'', AwaitBalance)] \<rparr>"

definition drop_call :: "nat \<Rightarrow> (string \<times> stage) list \<Rightarrow> (string \<times> stage) list" where
  "drop_call i cs = take i cs @ drop (Suc i) cs"

text \<open>Resuming the \<open>i\<close>-th suspended call with a settled promise. A rejection is caught,
  reported and rethrown; a balance that is not positive returns \<^verbatim>\<open>false\<close>; the last
  stage appends the trade record and returns it.\<close>

definition resume :: "nat \<Rightarrow> executor \<Rightarrow> nat \<Rightarrow> settled \<Rightarrow> executor \<times> outcome option" where
  "resume now ex i r =
     (if length (in_progress ex) \<le> i then (ex, None)
      else
        let (side, stg) = in_progress ex ! i
        in case r of
             Rejected \<Rightarrow> (ex\<lparr> in_progress := drop_call i (in_progress ex) \<rparr>, Some Thrown)
           | Resolved v \<Rightarrow>
               (case stg of
                  AwaitBalance \<Rightarrow>
                    if v \<le> 0
                    then (ex\<lparr> in_progress := drop_call i (in_progress ex) \<rparr>, Some ReturnedFalse)
                    else (ex\<lparr> in_progress := (in_progress ex)[i := (side, AwaitAmountsOut v)] \<rparr>,
                          None)
                | AwaitAmountsOut amountIn \<Rightarrow>
                    (ex\<lparr> in_progress :=
                           (in_progress ex)[i := (side, AwaitSwap amountIn v (applySlippage v side))] \<rparr>,
                     None)
                | AwaitSwap amountIn expected minAmountOut \<Rightarrow>
                    (ex\<lparr> in_progress :=
                           (in_progress ex)[i := (side, AwaitReceipt amountIn expected (nat v))] \<rparr>,
                     None)
                | AwaitReceipt amountIn expected txHash \<Rightarrow>
                    let tradeRecord =
                          \<lparr> trade_type = side, trade_txHash = txHash, trade_amountIn = amountIn,
                            trade_amountOut = expected, trade_timestamp = now,
                            trade_blockNumber = nat v \<rparr>
                    in (ex\<lparr> transactions := transactions ex @ [tradeRecord],
                            in_progress := drop_call i (in_progress ex) \<rparr>,
                        Some (ReturnedRecord tradeRecord))))"

text \<open>The calls whose swap has been submitted to the router and not yet confirmed.\<close>

definition swap_submitted :: "string \<times> stage \<Rightarrow> bool" where
  "swap_submitted c = (case snd c of AwaitReceipt a e h \<Rightarrow> True | _ \<Rightarrow> False)"

text \<open>A batch of calls made one after the other before any of them is resumed, and a
  run in which a buy and a sell are both taken up to their submitted swap.\<close>

datatype request = Buy | Sell

fun call_executor :: "executor \<Rightarrow> request \<Rightarrow> executor" where
  "call_executor ex Buy = executeBuy ex"
| "call_executor ex Sell = executeSell ex"

definition call_all :: "executor \<Rightarrow> request list \<Rightarrow> executor" where
  "call_all ex rs = foldl call_executor ex rs"

fun first_stage :: "request \<Rightarrow> string \<times> stage" where
  "first_stage Buy = (''buy'', AwaitBalance)"
| "first_stage Sell = (''sell'', AwaitBalance)"

definition buy_and_sell_run :: executor where
  "buy_and_sell_run =
     (let e1 = executeBuy new_executor;
          e2 = executeSell e1;
          e3 = fst (resume 0 e2 0 (Resolved 1000));
          e4 = fst (resume 0 e3 1 (Resolved 5));
          e5 = fst (resume 0 e4 0 (Resolved 10));
          e6 = fst (resume 0 e5 1 (Resolved 700));
          e7 = fst (resume 0 e6 0 (Resolved 11))
      in fst (resume 0 e7 1 (Resolved 12)))"

section \<open>Concrete states\<close>

text \<open>Market data last refreshed at time \<open>0\<close> (milliseconds): RSI 25, EMA 50000,
  reference price 50100, DEX price 49700.\<close>

definition old_taapi_data :: taapi_data where
  "old_taapi_data =
     \<lparr> taapi_price = 50100, taapi_rsi = Some 25, taapi_ema = Some 50000, lastUpdated = Some 0 \<rparr>"

definition old_market_data :: market_data where
  "old_market_data = onPriceUpdate 0 (onDataUpdate 0 new_market_data old_taapi_data) 49700"

text \<open>The monitoring service as constructed in an empty store.\<close>

definition service_store :: store where
  "service_store = fst (new_MonitoringService empty_store)"

definition service_marketData :: nat where
  "service_marketData = snd (new_MonitoringService empty_store)"

section \<open>Signal rules\<close>

text \<open>
  What \<^verbatim>\<open>SignalDetector.checkBuySignal\<close> computes: a buy signal only for the position
  \<^verbatim>\<open>null\<close> (flat), and then exactly when the RSI is set and below the oversold
  threshold, the EMA is set and the reference price is above it, and the quotient
  \<^verbatim>\<open>(binancePrice - dexPrice) / dexPrice\<close>, taken with JavaScript division and no
  test for a zero price, exceeds the minimum profit threshold. The registered callback
  receives a signal in exactly the same cases.
\<close>

lemma checkBuySignal_rule:
  "(fst (checkBuySignal now env det pos) \<longleftrightarrow>
      (pos = None
       \<and> isRsiOversold (calc_indicators env)
       \<and> isPriceAboveEma (calc_indicators env) (binance_currentPrice env)
       \<and> js_gt (jsdiv (binance_currentPrice env - dex_currentPrice env) (dex_currentPrice env))
                trading_minProfitThreshold))
   \<and> (snd (snd (checkBuySignal now env det pos)) \<noteq> [] \<longleftrightarrow>
        (onBuySignal det \<and> fst (checkBuySignal now env det pos)))"
  by (simp add: checkBuySignal_def Let_def)

text \<open>Two of the three conditions are not enough, whichever one is missing, and a long
  position blocks the signal.\<close>

lemma buy_needs_oversold_rsi:
  "\<not> fst (checkBuySignal 0 (mk_services 50100 49700 (Some 35) (Some 50000)) new_signal_detector None)"
  by (simp add: checkBuySignal_def mk_services_def isRsiOversold_def rsi_oversold_def)

lemma buy_needs_price_above_ema:
  "\<not> fst (checkBuySignal 0 (mk_services 50100 49700 (Some 25) (Some 50200)) new_signal_detector None)"
  by (simp add: checkBuySignal_def mk_services_def isPriceAboveEma_def)

lemma buy_needs_gap:
  "\<not> fst (checkBuySignal 0 (mk_services 50100 50000 (Some 25) (Some 50000)) new_signal_detector None)"
  by (simp add: checkBuySignal_def mk_services_def jsdiv_def trading_minProfitThreshold_def)

lemma buy_needs_flat_position:
  "\<not> fst (checkBuySignal 0 (mk_services 50100 49700 (Some 25) (Some 50000)) new_signal_detector
            (Some ''long''))"
  by (simp add: checkBuySignal_def)

lemma buy_signal_scenario:
  "fst (checkBuySignal 0 (mk_services 50100 49700 (Some 25) (Some 50000)) new_signal_detector None)"
  by (simp add: checkBuySignal_def Let_def mk_services_def isRsiOversold_def isPriceAboveEma_def
        jsdiv_def rsi_oversold_def trading_minProfitThreshold_def)

text \<open>
  The price gap of the market data is guarded: it is \<open>0\<close> while either price is \<open>0\<close>, as
  \<^verbatim>\<open>calculatePriceDifference\<close> computes it. The detector's unguarded quotient passes
  the threshold test exactly when the guarded gap does, except while the DEX price is
  \<open>0\<close> and the reference price is positive: there the quotient is \<^verbatim>\<open>Infinity\<close>.
\<close>

lemma gap_tests_agree:
  "d \<noteq> 0 \<or> b \<le> 0 \<Longrightarrow>
     js_gt (jsdiv (b - d) d) trading_minProfitThreshold
       = js_gt (calculatePriceDifference d b) trading_minProfitThreshold"
  by (auto simp: jsdiv_def calculatePriceDifference_def trading_minProfitThreshold_def)

lemma gap_tests_differ:
  "0 < b \<Longrightarrow>
     js_gt (jsdiv (b - 0) 0) trading_minProfitThreshold
     \<and> \<not> js_gt (calculatePriceDifference 0 b) trading_minProfitThreshold"
  by (simp add: jsdiv_def calculatePriceDifference_def trading_minProfitThreshold_def)

lemma checkBuySignal_guarded_gap:
  "dex_currentPrice env \<noteq> 0 \<or> binance_currentPrice env \<le> 0 \<Longrightarrow>
     fst (checkBuySignal now env det pos) \<longleftrightarrow>
       (pos = None
        \<and> isRsiOversold (calc_indicators env)
        \<and> isPriceAboveEma (calc_indicators env) (binance_currentPrice env)
        \<and> dex_isPotentialBuyOpportunity (dex_currentPrice env) (binance_currentPrice env))"
  by (simp only: checkBuySignal_rule dex_isPotentialBuyOpportunity_def Let_def gap_tests_agree)

text \<open>
  Claim C1 does not hold of the code. When the first DEX quote fails,
  \<^verbatim>\<open>DexPriceMonitor.initialize\<close> leaves the DEX price at \<open>0\<close>. With reference price 50100,
  RSI 25, EMA 50000 and a flat position, the price gap is \<open>0\<close>, which does not exceed the
  minimum profit threshold, so no buy signal is due; \<^verbatim>\<open>checkBuySignal\<close> divides by the
  zero DEX price, compares \<^verbatim>\<open>Infinity\<close> with the threshold and reports a buy signal.
\<close>

theorem C1_buy_signal_at_unset_dex_price:
  "dex_initialize None new_dex_price = (0, False)
   \<and> calculatePriceDifference (fst (dex_initialize None new_dex_price)) 50100 = Fin 0
   \<and> \<not> dex_isPotentialBuyOpportunity (fst (dex_initialize None new_dex_price)) 50100
   \<and> isRsiOversold (calc_indicators (mk_services 50100 0 (Some 25) (Some 50000)))
   \<and> isPriceAboveEma (calc_indicators (mk_services 50100 0 (Some 25) (Some 50000))) 50100
   \<and> fst (checkBuySignal 0
            (mk_services 50100 (fst (dex_initialize None new_dex_price)) (Some 25) (Some 50000))
            new_signal_detector None)"
  by (simp add: dex_initialize_def dex_updatePrice_def new_dex_price_def checkBuySignal_def
        Let_def mk_services_def isRsiOversold_def isPriceAboveEma_def jsdiv_def rsi_oversold_def
        dex_isPotentialBuyOpportunity_def calculatePriceDifference_def
        trading_minProfitThreshold_def)

text \<open>
  The opportunity check of \<^verbatim>\<open>MonitoringService\<close> is a different rule: no position is
  consulted, and the guarded gap is combined with the disjunction of an oversold RSI and
  a reference price below the EMA.
\<close>

lemma monitoring_buy_opportunity_rule:
  "isPotentialBuyOpportunity md cur \<longleftrightarrow>
     (js_gt (priceDifference md) trading_minProfitThreshold
      \<and> (taapi_isRsiOversold cur \<or> taapi_isPriceBelowEma cur))"
  by (simp add: isPotentialBuyOpportunity_def)

lemma monitoring_sell_opportunity_rule:
  "isPotentialSellOpportunity md cur \<longleftrightarrow>
     (js_lt (priceDifference md) (- trading_minProfitThreshold)
      \<and> (taapi_isRsiOverbought cur \<or> taapi_isPriceAboveEma cur))"
  by (simp add: isPotentialSellOpportunity_def)

text \<open>
  Claim C2, as stated, fails. With reference price 1000, DEX price 1006.03, RSI 75, EMA
  1010 and a long position, \<^verbatim>\<open>checkSellSignal\<close> reports a sell signal, because
  \<^verbatim>\<open>(dexPrice - binancePrice) / binancePrice\<close> is 0.00603; the negated gap with the
  DEX price as denominator, which \<^verbatim>\<open>DexPriceMonitor.isPotentialSellOpportunity\<close> tests,
  is below the threshold.
\<close>

theorem C2_sell_gap_counterexample:
  "fst (checkSellSignal 0 (mk_services 1000 (100603 / 100) (Some 75) (Some 1010))
          new_signal_detector (Some ''long''))
   \<and> \<not> dex_isPotentialSellOpportunity (100603 / 100) 1000
   \<and> \<not> trading_minProfitThreshold < - ((1000 - 100603 / 100) / (100603 / 100))"
  by (simp add: checkSellSignal_def Let_def mk_services_def isRsiOverbought_def
        isPriceBelowEma_def jsdiv_def rsi_overbought_def trading_minProfitThreshold_def
        dex_isPotentialSellOpportunity_def calculatePriceDifference_def)

text \<open>
  Claim C2, amended. \<^verbatim>\<open>checkSellSignal\<close> reports a sell signal only for the position
  \<^verbatim>\<open>'long'\<close>, and then exactly when the RSI is set and above the overbought threshold,
  the EMA is set and the reference price is below it, and the gap recomputed as
  \<^verbatim>\<open>(dexPrice - binancePrice) / binancePrice\<close>, with the reference price as
  denominator, exceeds the minimum profit threshold. The registered callback receives a
  signal in exactly the same cases.
\<close>

theorem C2_sell_signal_rule:
  "(fst (checkSellSignal now env det pos) \<longleftrightarrow>
      (pos = Some ''long''
       \<and> isRsiOverbought (calc_indicators env)
       \<and> isPriceBelowEma (calc_indicators env) (binance_currentPrice env)
       \<and> js_gt (jsdiv (dex_currentPrice env - binance_currentPrice env) (binance_currentPrice env))
                trading_minProfitThreshold))
   \<and> (snd (snd (checkSellSignal now env det pos)) \<noteq> [] \<longleftrightarrow>
        (onSellSignal det \<and> fst (checkSellSignal now env det pos)))"
  by (simp add: checkSellSignal_def Let_def)

theorem C2_sell_signal_witness:
  "fst (checkSellSignal 0 (mk_services 1000 1010 (Some 75) (Some 1005)) new_signal_detector
          (Some ''long''))"
  using C2_sell_signal_rule
          [of 0 "mk_services 1000 1010 (Some 75) (Some 1005)" new_signal_detector "Some ''long''"]
  by (simp add: mk_services_def isRsiOverbought_def isPriceBelowEma_def jsdiv_def
        rsi_overbought_def trading_minProfitThreshold_def)

section \<open>The price gap\<close>

lemma jsdiv_finite: "b \<noteq> 0 \<Longrightarrow> jsdiv a b = Fin (a / b)"
  by (simp add: jsdiv_def)

lemma updatePriceDifference_gap:
  "priceDifference (updatePriceDifference now md) =
     (if centralized_price (centralized md) = 0 \<or> dex_price md = 0 then Fin 0
      else Fin ((centralized_price (centralized md) - dex_price md) / dex_price md))"
  by (simp add: updatePriceDifference_def jsdiv_finite)

lemma updatePriceDifference_prices:
  "centralized (updatePriceDifference now md) = centralized md"
  "dex_price (updatePriceDifference now md) = dex_price md"
  by (simp_all add: updatePriceDifference_def)

text \<open>
  Claim C5. Whenever the gap is recomputed (\<^verbatim>\<open>updatePriceDifference\<close>, run by both
  feed handlers, and \<^verbatim>\<open>DexPriceMonitor.calculatePriceDifference\<close>), it is exactly \<open>0\<close>
  if the reference price or the DEX price is \<open>0\<close>, the value both have before their
  first update, and otherwise the quotient of reference price minus DEX price by the
  DEX price. The division is only reached with a non-zero divisor, so the result is
  always a finite number: never \<^verbatim>\<open>NaN\<close> and never infinite.
\<close>

theorem C5_price_gap_zero_guard:
  "priceDifference (updatePriceDifference now md) =
     (if centralized_price (centralized md) = 0 \<or> dex_price md = 0 then Fin 0
      else Fin ((centralized_price (centralized md) - dex_price md) / dex_price md))
   \<and> priceDifference (onDataUpdate now md d) =
     (if taapi_price d = 0 \<or> dex_price md = 0 then Fin 0
      else Fin ((taapi_price d - dex_price md) / dex_price md))
   \<and> priceDifference (onPriceUpdate now md p) =
     (if centralized_price (centralized md) = 0 \<or> p = 0 then Fin 0
      else Fin ((centralized_price (centralized md) - p) / p))
   \<and> calculatePriceDifference p b =
     (if p = 0 \<or> b = 0 then Fin 0 else Fin ((b - p) / p))
   \<and> (\<exists>x. priceDifference (updatePriceDifference now md) = Fin x)
   \<and> (\<exists>x. calculatePriceDifference p b = Fin x)
   \<and> priceDifference new_market_data = Fin 0"
  by (simp add: updatePriceDifference_gap onDataUpdate_def onPriceUpdate_def
        calculatePriceDifference_def jsdiv_finite new_market_data_def)

theorem C5_price_gap_witness:
  "priceDifference (onPriceUpdate 1 new_market_data 49700) = Fin 0
   \<and> calculatePriceDifference 49700 50100 = Fin (400 / 49700)"
  using C5_price_gap_zero_guard
          [of 1 new_market_data
              "\<lparr> taapi_price = 50100, taapi_rsi = Some 25, taapi_ema = Some 50000,
                 lastUpdated = Some 0 \<rparr>"
              49700 50100]
  by (simp add: new_market_data_def)

section \<open>The position and its trailing stop\<close>

lemma updateHighestPrice_open:
  assumes "truthy_str (currentPosition pm)" and "highestPrice pm = Some h"
  shows "highestPrice (updateHighestPrice pm p) = Some (max h p)"
    and "currentPosition (updateHighestPrice pm p) = currentPosition pm"
    and "entryPrice (updateHighestPrice pm p) = entryPrice pm"
  using assms by (auto simp: updateHighestPrice_def max_def)

lemma price_updates_open:
  assumes "truthy_str (currentPosition pm)" and "highestPrice pm = Some h"
  shows "highestPrice (price_updates pm ps) = Some (foldl max h ps)
         \<and> currentPosition (price_updates pm ps) = currentPosition pm
         \<and> entryPrice (price_updates pm ps) = entryPrice pm"
  using assms
proof (induction ps arbitrary: pm h)
  case Nil
  then show ?case by (simp add: price_updates_def)
next
  case (Cons p ps)
  have step: "truthy_str (currentPosition (updateHighestPrice pm p))"
             "highestPrice (updateHighestPrice pm p) = Some (max h p)"
    using Cons.prems by (simp_all add: updateHighestPrice_open)
  from Cons.IH [OF step] show ?case
    using Cons.prems by (simp add: price_updates_def updateHighestPrice_open)
qed

lemma foldl_max_ge: "(h::real) \<le> foldl max h ps"
proof (induction ps arbitrary: h)
  case Nil
  show ?case by simp
next
  case (Cons p ps)
  have "h \<le> max h p" by simp
  also have "\<dots> \<le> foldl max (max h p) ps" by (rule Cons.IH)
  finally show ?case by simp
qed

lemma price_updates_append:
  "price_updates pm (ps @ qs) = price_updates (price_updates pm ps) qs"
  by (simp add: price_updates_def)

text \<open>
  Claim C6. From \<^verbatim>\<open>openPosition\<close> on, and for every sequence of prices passed to
  \<^verbatim>\<open>updateHighestPrice\<close> (in any order, with repetitions), the position stays
  \<^verbatim>\<open>'long'\<close> with its entry price, the highest price is at least the entry price, and
  any further updates leave it equal or higher. Opening sets the highest price to the
  entry price.
\<close>

theorem C6_peak_monotone:
  "highestPrice (fst (openPosition now pm entry)) = Some entry
   \<and> currentPosition (price_updates (fst (openPosition now pm entry)) ps) = Some ''long''
   \<and> entryPrice (price_updates (fst (openPosition now pm entry)) ps) = Some entry
   \<and> (\<exists>h h'. highestPrice (price_updates (fst (openPosition now pm entry)) ps) = Some h
            \<and> highestPrice (price_updates (fst (openPosition now pm entry)) (ps @ qs)) = Some h'
            \<and> entry \<le> h \<and> h \<le> h')"
proof -
  let ?pm0 = "fst (openPosition now pm entry)"
  have open0: "truthy_str (currentPosition ?pm0)" "highestPrice ?pm0 = Some entry"
    and fields0: "currentPosition ?pm0 = Some ''long''" "entryPrice ?pm0 = Some entry"
    by (simp_all add: openPosition_def)
  note first = price_updates_open [OF open0, of ps]
  have open1: "truthy_str (currentPosition (price_updates ?pm0 ps))"
              "highestPrice (price_updates ?pm0 ps) = Some (foldl max entry ps)"
    using first open0 by simp_all
  note second = price_updates_open [OF open1, of qs]
  have "highestPrice (price_updates ?pm0 (ps @ qs)) = Some (foldl max (foldl max entry ps) qs)"
    using second by (simp add: price_updates_append)
  moreover have "entry \<le> foldl max entry ps"
    and "foldl max entry ps \<le> foldl max (foldl max entry ps) qs"
    by (rule foldl_max_ge)+
  ultimately show ?thesis
    using first fields0 open0 by simp
qed

theorem C6_peak_witness:
  "highestPrice (price_updates (fst (openPosition 0 new_position_manager 50000))
                   [50500, 50200, 51000, 51000, 49000]) = Some 51000"
proof -
  have "price_updates (fst (openPosition 0 new_position_manager 50000))
          ([50500, 50200, 51000, 51000, 49000] @ []) =
        price_updates (fst (openPosition 0 new_position_manager 50000))
          [50500, 50200, 51000, 51000, 49000]"
    by simp
  then show ?thesis
    using C6_peak_monotone [of 0 new_position_manager 50000 "[50500, 50200, 51000, 51000, 49000]" "[]"]
    by (simp add: price_updates_def updateHighestPrice_def openPosition_def)
qed

text \<open>
  What \<^verbatim>\<open>shouldTriggerStopLoss\<close> computes for any number: its guard
  \<^verbatim>\<open>!this.highestPrice\<close> treats a highest price of \<open>0\<close> like an unset one. The guard
  only shows for a negative current price, which no price feed delivers: the DEX price
  is parsed from an unsigned amount.
\<close>

lemma shouldTriggerStopLoss_rule:
  "shouldTriggerStopLoss pm p \<longleftrightarrow>
     (truthy_str (currentPosition pm)
      \<and> (\<exists>h. highestPrice pm = Some h \<and> h \<noteq> 0 \<and> p < h * (1 - trading_trailingStopLoss)))"
  by (cases "highestPrice pm") (auto simp: shouldTriggerStopLoss_def)

lemma stop_loss_zero_peak_guard:
  "highestPrice (fst (openPosition 0 new_position_manager 0)) = Some 0
   \<and> \<not> shouldTriggerStopLoss (fst (openPosition 0 new_position_manager 0)) (- 1)"
  by (simp add: openPosition_def shouldTriggerStopLoss_def)

text \<open>
  Claim C7. For every current price, a price being a number that is not negative,
  \<^verbatim>\<open>shouldTriggerStopLoss(currentPrice)\<close> returns \<^verbatim>\<open>true\<close> exactly when a position is
  open and \<open>currentPrice < highestPrice * (1 - trailingStopLoss)\<close>, and it returns
  \<^verbatim>\<open>false\<close> whenever no position is open. A position opened at 50000 whose highest
  price has risen to 51000 triggers, with the trailing stop of 0.005, at the current
  price 50700, which is below \<open>51000 * 0.995 = 50745\<close>.
\<close>

theorem C7_trailing_stop_rule:
  "0 \<le> p \<Longrightarrow>
     (shouldTriggerStopLoss pm p \<longleftrightarrow>
        (truthy_str (currentPosition pm)
         \<and> (\<exists>h. highestPrice pm = Some h \<and> p < h * (1 - trading_trailingStopLoss))))
     \<and> \<not> shouldTriggerStopLoss (pm\<lparr> currentPosition := None \<rparr>) p
     \<and> currentPosition (price_updates (fst (openPosition now new_position_manager 50000)) [51000])
          = Some ''long''
     \<and> entryPrice (price_updates (fst (openPosition now new_position_manager 50000)) [51000])
          = Some 50000
     \<and> highestPrice (price_updates (fst (openPosition now new_position_manager 50000)) [51000])
          = Some 51000
     \<and> trading_trailingStopLoss = 5 / 1000
     \<and> 51000 * (1 - trading_trailingStopLoss) = 50745
     \<and> shouldTriggerStopLoss
          (price_updates (fst (openPosition now new_position_manager 50000)) [51000]) 50700"
proof -
  assume nonneg: "0 \<le> p"
  have rule: "shouldTriggerStopLoss pm p \<longleftrightarrow>
        (truthy_str (currentPosition pm)
         \<and> (\<exists>h. highestPrice pm = Some h \<and> p < h * (1 - trading_trailingStopLoss)))"
    unfolding shouldTriggerStopLoss_rule using nonneg by auto
  have closed: "\<not> shouldTriggerStopLoss (pm\<lparr> currentPosition := None \<rparr>) p"
    by (simp add: shouldTriggerStopLoss_def)
  have state: "currentPosition (price_updates (fst (openPosition now new_position_manager 50000)) [51000])
          = Some ''long''"
    "entryPrice (price_updates (fst (openPosition now new_position_manager 50000)) [51000])
          = Some 50000"
    "highestPrice (price_updates (fst (openPosition now new_position_manager 50000)) [51000])
          = Some 51000"
    by (simp_all add: price_updates_def updateHighestPrice_def openPosition_def)
  have config: "trading_trailingStopLoss = 5 / 1000"
    by (simp add: trading_trailingStopLoss_def)
  have level: "51000 * (1 - trading_trailingStopLoss) = 50745"
    by (simp add: trading_trailingStopLoss_def)
  have scenario: "shouldTriggerStopLoss
          (price_updates (fst (openPosition now new_position_manager 50000)) [51000]) 50700"
    by (simp add: shouldTriggerStopLoss_def price_updates_def updateHighestPrice_def
          openPosition_def trading_trailingStopLoss_def)
  from rule closed state config level scenario show ?thesis
    by (simp only: simp_thms)
qed

theorem C7_trailing_stop_witness:
  "(0::real) \<le> 50800
   \<and> \<not> shouldTriggerStopLoss
          (price_updates (fst (openPosition 0 new_position_manager 50000)) [51000]) 50800"
proof -
  have h: "(0::real) \<le> 50800" by simp
  show ?thesis
    using C7_trailing_stop_rule
            [OF h, of "price_updates (fst (openPosition 0 new_position_manager 50000)) [51000]" 0]
    by (simp add: price_updates_def updateHighestPrice_def openPosition_def
          trading_trailingStopLoss_def)
qed

text \<open>
  Claim C10. \<^verbatim>\<open>closePosition\<close> called while \<^verbatim>\<open>currentPosition\<close> is \<^verbatim>\<open>null\<close> only
  logs the warning: the manager (position, entry price, highest price, callbacks) is
  returned unchanged, no profit is computed or logged, and \<^verbatim>\<open>onPositionClosed\<close> is
  not called, whatever the exit price.
\<close>

theorem C10_close_without_position:
  "currentPosition pm = None \<Longrightarrow>
     closePosition now pm exitPrice = (pm, [Log Warn ''No position to close''])"
  by (simp add: closePosition_def)

theorem C10_close_without_position_witness:
  "currentPosition (new_position_manager\<lparr> onPositionClosed := True \<rparr>) = None
   \<and> closePosition 7 (new_position_manager\<lparr> onPositionClosed := True \<rparr>) 50000
       = (new_position_manager\<lparr> onPositionClosed := True \<rparr>, [Log Warn ''No position to close''])"
proof -
  have h: "currentPosition (new_position_manager\<lparr> onPositionClosed := True \<rparr>) = None"
    by (simp add: new_position_manager_def)
  show ?thesis
    using h C10_close_without_position [OF h, of 7 50000] by simp
qed

text \<open>With a position open the same call does close it, and the callback is called.\<close>

lemma closePosition_open:
  "closePosition 9 (fst (openPosition 0 (new_position_manager\<lparr> onPositionClosed := True \<rparr>) 50000))
     50500 =
   (new_position_manager\<lparr> onPositionClosed := True \<rparr>,
    [Log Info ''Closed position'', Log Info ''Trade completed'',
     PositionClosed \<lparr> closed_type = ''long'', closed_entryPrice = Some 50000,
                      closed_exitPrice = 50500, closed_profitPercent = Fin 1,
                      closed_timestamp = 9 \<rparr>])"
  by (simp add: closePosition_def openPosition_def new_position_manager_def jsdiv_def)

section \<open>Slippage\<close>

lemma applySlippage_positive:
  "0 < amount \<Longrightarrow> applySlippage amount tradeType = (amount * 9980) div 10000"
  by (simp add: applySlippage_def trading_maxSlippage_def signed_divide_int_def)

lemma floor_slippage:
  "\<lfloor>real_of_int amount * (1 - trading_maxSlippage)\<rfloor> = (amount * 9980) div 10000"
proof -
  have "real_of_int amount * (1 - trading_maxSlippage) =
        real_of_int (amount * 9980) / real_of_int 10000"
    by (simp add: trading_maxSlippage_def)
  then show ?thesis
    by (simp only: floor_divide_of_int_eq)
qed

text \<open>
  Claim C8, as stated, fails in its example. Amounts are integers, and for the amount
  \<open>100\<close> \<^verbatim>\<open>applySlippage\<close> returns \<open>99\<close>, not \<open>99.8\<close>.
\<close>

theorem C8_integer_amount_counterexample:
  "applySlippage 100 ''buy'' = 99 \<and> real_of_int (applySlippage 100 ''buy'') \<noteq> 998 / 10"
  by (simp add: applySlippage_positive)

text \<open>
  Claim C8, amended. For every positive integer amount, counted in the token's smallest
  unit, and either trade type, \<^verbatim>\<open>applySlippage\<close> returns
  \<open>amount * (1 - maxSlippage)\<close> rounded down to an integer, the same for buy and sell.
  With \<open>maxSlippage = 0.002\<close>: the amount \<open>100\<close> gives \<open>99\<close>; 100 whole tokens, written
  in smallest units of a token with 8 or 18 decimals, give 99.8 tokens.
\<close>

theorem C8_slippage_floor:
  "0 < amount \<Longrightarrow>
     applySlippage amount tradeType = \<lfloor>real_of_int amount * (1 - trading_maxSlippage)\<rfloor>
     \<and> applySlippage amount ''buy'' = applySlippage amount ''sell''
     \<and> trading_maxSlippage = 2 / 1000
     \<and> applySlippage 100 tradeType = 99
     \<and> formatUnits (applySlippage (parseUnits 100 8) ''buy'') 8 = 998 / 10
     \<and> formatUnits (applySlippage (parseUnits 100 18) ''sell'') 18 = 998 / 10"
proof -
  assume pos: "0 < amount"
  have general: "applySlippage amount tradeType = \<lfloor>real_of_int amount * (1 - trading_maxSlippage)\<rfloor>"
    using pos by (simp only: applySlippage_positive floor_slippage)
  have sides: "applySlippage amount ''buy'' = applySlippage amount ''sell''"
    using pos by (simp only: applySlippage_positive)
  have config: "trading_maxSlippage = 2 / 1000"
    by (simp add: trading_maxSlippage_def)
  have hundred: "applySlippage 100 tradeType = 99"
    by (simp add: applySlippage_positive)
  have wbtc: "formatUnits (applySlippage (parseUnits 100 8) ''buy'') 8 = 998 / 10"
    by (simp add: applySlippage_positive parseUnits_def formatUnits_def)
  have busd: "formatUnits (applySlippage (parseUnits 100 18) ''sell'') 18 = 998 / 10"
    by (simp add: applySlippage_positive parseUnits_def formatUnits_def)
  from general sides config hundred wbtc busd show ?thesis
    by (simp only: simp_thms)
qed

theorem C8_slippage_witness:
  "(0::int) < 12345 \<and> applySlippage 12345 ''sell'' = 12320"
proof -
  have h: "(0::int) < 12345" by simp
  show ?thesis
    using C8_slippage_floor [OF h, of "''sell''"] by (simp add: applySlippage_positive)
qed

section \<open>Calls in progress\<close>

lemma call_all_in_progress:
  "in_progress (call_all ex rs) = in_progress ex @ map first_stage rs
   \<and> transactions (call_all ex rs) = transactions ex"
proof (induction rs arbitrary: ex)
  case Nil
  show ?case by (simp add: call_all_def)
next
  case (Cons r rs)
  have "in_progress (call_executor ex r) = in_progress ex @ [first_stage r]"
    and "transactions (call_executor ex r) = transactions ex"
    by (cases r; simp add: executeBuy_def executeSell_def)+
  with Cons.IH [of "call_executor ex r"] show ?case
    by (simp add: call_all_def)
qed

text \<open>
  Claim C3, as stated, fails. A call of \<^verbatim>\<open>executeSell\<close> made while a call of
  \<^verbatim>\<open>executeBuy\<close> is suspended is not rejected: both are in progress, and resumed in
  turn both reach the point where their swap has been submitted.
\<close>

theorem C3_two_calls_counterexample:
  "in_progress (executeSell (executeBuy new_executor)) =
     [(''buy'', AwaitBalance), (''sell'', AwaitBalance)]
   \<and> in_progress buy_and_sell_run =
     [(''buy'', AwaitReceipt 1000 10 11), (''sell'', AwaitReceipt 5 700 12)]
   \<and> length (filter swap_submitted (in_progress buy_and_sell_run)) = 2"
proof -
  let ?e2 = "\<lparr> transactions = [],
               in_progress = [(''buy'', AwaitBalance), (''sell'', AwaitBalance)] \<rparr>"
  let ?e3 = "\<lparr> transactions = [],
               in_progress = [(''buy'', AwaitAmountsOut 1000), (''sell'', AwaitBalance)] \<rparr>"
  let ?e4 = "\<lparr> transactions = [],
               in_progress = [(''buy'', AwaitAmountsOut 1000), (''sell'', AwaitAmountsOut 5)] \<rparr>"
  let ?e5 = "\<lparr> transactions = [],
               in_progress = [(''buy'', AwaitSwap 1000 10 9), (''sell'', AwaitAmountsOut 5)] \<rparr>"
  let ?e6 = "\<lparr> transactions = [],
               in_progress = [(''buy'', AwaitSwap 1000 10 9), (''sell'', AwaitSwap 5 700 698)] \<rparr>"
  let ?e7 = "\<lparr> transactions = [],
               in_progress = [(''buy'', AwaitReceipt 1000 10 11), (''sell'', AwaitSwap 5 700 698)] \<rparr>"
  let ?e8 = "\<lparr> transactions = [],
               in_progress = [(''buy'', AwaitReceipt 1000 10 11), (''sell'', AwaitReceipt 5 700 12)] \<rparr>"
  have s2: "executeSell (executeBuy new_executor) = ?e2"
    by (simp add: executeBuy_def executeSell_def new_executor_def)
  have s3: "fst (resume 0 ?e2 0 (Resolved 1000)) = ?e3"
    by (simp add: resume_def)
  have s4: "fst (resume 0 ?e3 1 (Resolved 5)) = ?e4"
    by (simp add: resume_def)
  have s5: "fst (resume 0 ?e4 0 (Resolved 10)) = ?e5"
    by (simp add: resume_def applySlippage_positive)
  have s6: "fst (resume 0 ?e5 1 (Resolved 700)) = ?e6"
    by (simp add: resume_def applySlippage_positive)
  have s7: "fst (resume 0 ?e6 0 (Resolved 11)) = ?e7"
    by (simp add: resume_def)
  have s8: "fst (resume 0 ?e7 1 (Resolved 12)) = ?e8"
    by (simp add: resume_def)
  have run: "buy_and_sell_run = ?e8"
    by (simp only: buy_and_sell_run_def Let_def s2 s3 s4 s5 s6 s7 s8)
  show ?thesis
    by (simp add: run s2 swap_submitted_def)
qed

text \<open>
  Claim C3, amended. \<^verbatim>\<open>TradeExecutor\<close> has no single-flight check and no busy error:
  every call of \<^verbatim>\<open>executeBuy\<close> or \<^verbatim>\<open>executeSell\<close> proceeds to its first
  \<^verbatim>\<open>await\<close> whatever is already in progress. After any batch of calls made before one
  of them finishes, all of them are in progress, in addition to those that were.
\<close>

theorem C3_every_call_proceeds:
  "in_progress (executeBuy ex) = in_progress ex @ [(''buy'', AwaitBalance)]
   \<and> in_progress (executeSell ex) = in_progress ex @ [(''sell'', AwaitBalance)]
   \<and> in_progress (call_all ex rs) = in_progress ex @ map first_stage rs
   \<and> length (in_progress (call_all ex rs)) = length (in_progress ex) + length rs
   \<and> transactions (call_all ex rs) = transactions ex"
  by (simp add: call_all_in_progress executeBuy_def executeSell_def)

section \<open>Data age\<close>

text \<open>
  Claim C4, as stated, fails. Market data last refreshed at time \<open>0\<close> is stale at time
  \<open>1000000\<close> for a window of \<open>240000\<close> (twice the two-minute refresh interval, in
  milliseconds), and \<^verbatim>\<open>isPotentialBuyOpportunity\<close> still answers \<^verbatim>\<open>true\<close>; so does
  \<^verbatim>\<open>checkBuySignal\<close> called at that time on the same prices and indicators.
\<close>

theorem C4_stale_snapshot_counterexample:
  "snapshot_isStale 240000 1000000 old_market_data old_taapi_data
   \<and> isPotentialBuyOpportunity old_market_data old_taapi_data
   \<and> fst (checkBuySignal 1000000 (mk_services 50100 49700 (Some 25) (Some 50000))
             new_signal_detector None)"
  by (simp add: snapshot_isStale_def isStale_def old_market_data_def old_taapi_data_def
        isPotentialBuyOpportunity_def onPriceUpdate_def onDataUpdate_def
        updatePriceDifference_def new_market_data_def jsdiv_def trading_minProfitThreshold_def
        taapi_isRsiOversold_def rsi_oversold_def checkBuySignal_def Let_def mk_services_def
        isRsiOversold_def isPriceAboveEma_def)

text \<open>
  Claim C4, amended. Signal evaluation does not look at the age of its data. The answers
  of \<^verbatim>\<open>isPotentialBuyOpportunity\<close> and \<^verbatim>\<open>isPotentialSellOpportunity\<close> do not depend
  on the time stamps stored with the market data, and those of \<^verbatim>\<open>checkBuySignal\<close> and
  \<^verbatim>\<open>checkSellSignal\<close>, whose inputs carry no time stamp, do not depend on the time of
  the call: a stale snapshot yields the signal a fresh one with the same values yields.
\<close>

theorem C4_evaluation_ignores_age:
  "isPotentialBuyOpportunity (md\<lparr> timestamp := t \<rparr>) (cur\<lparr> lastUpdated := u \<rparr>)
     = isPotentialBuyOpportunity md cur
   \<and> isPotentialSellOpportunity (md\<lparr> timestamp := t \<rparr>) (cur\<lparr> lastUpdated := u \<rparr>)
     = isPotentialSellOpportunity md cur
   \<and> fst (checkBuySignal now env det pos) = fst (checkBuySignal now' env det pos)
   \<and> fst (checkSellSignal now env det pos) = fst (checkSellSignal now' env det pos)"
  by (simp add: isPotentialBuyOpportunity_def isPotentialSellOpportunity_def
        taapi_isRsiOversold_def taapi_isPriceBelowEma_def taapi_isRsiOverbought_def
        taapi_isPriceAboveEma_def checkBuySignal_def checkSellSignal_def Let_def
        split: option.split)

section \<open>The snapshot shares its nested objects\<close>

lemma service_built:
  "new_MonitoringService empty_store =
     (\<lparr> objects =
          [0 \<mapsto> [''rsi'' \<mapsto> VNull, ''ema'' \<mapsto> VNull],
           1 \<mapsto> [''price'' \<mapsto> VNumber (Fin 0), ''indicators'' \<mapsto> VRef 0],
           2 \<mapsto> [''price'' \<mapsto> VNumber (Fin 0)],
           3 \<mapsto> [''centralized'' \<mapsto> VRef 1, ''dex'' \<mapsto> VRef 2,
                 ''priceDifference'' \<mapsto> VNumber (Fin 0), ''timestamp'' \<mapsto> VNull]],
        next_addr = 4 \<rparr>, 3)"
  by (simp add: new_MonitoringService_def alloc_def empty_store_def eval_nat_numeral)

lemma snapshot_shares_dex:
  assumes "objects st marketData = Some ob"
    and "ob ''dex'' = Some (VRef d)"
    and "objects st d = Some dexob"
    and "next_addr st \<noteq> marketData" and "next_addr st \<noteq> d"
  shows "\<exists>st'. consumer_sets_dex_price st marketData v = Some st'
           \<and> get_prop2 st' marketData ''dex'' ''price'' = Some (VNumber (Fin v))"
  using assms
  by (auto simp: consumer_sets_dex_price_def getCurrentData_def alloc_def set_prop2_def
        set_prop_def get_prop_def get_prop2_def)

text \<open>
  Claim C9 does not hold of the code. \<^verbatim>\<open>getCurrentData\<close> copies the top-level
  properties only. On the service as constructed, a consumer that assigns
  \<^verbatim>\<open>data.dex.price = 123\<close> or \<^verbatim>\<open>data.centralized.indicators.rsi = 99\<close> to its
  snapshot changes the DEX price and the RSI the service itself reads; an assignment to
  the top-level \<^verbatim>\<open>data.priceDifference\<close> does not reach the service.
\<close>

theorem C9_snapshot_shares_nested_objects:
  "get_prop2 service_store service_marketData ''dex'' ''price'' = Some (VNumber (Fin 0))
   \<and> map_option (\<lambda>st. get_prop2 st service_marketData ''dex'' ''price'')
        (consumer_sets_dex_price service_store service_marketData 123)
      = Some (Some (VNumber (Fin 123)))
   \<and> get_prop3 service_store service_marketData ''centralized'' ''indicators'' ''rsi'' = Some VNull
   \<and> map_option (\<lambda>st. get_prop3 st service_marketData ''centralized'' ''indicators'' ''rsi'')
        (consumer_sets_rsi service_store service_marketData 99)
      = Some (Some (VNumber (Fin 99)))
   \<and> map_option (\<lambda>st. get_prop st service_marketData ''priceDifference'')
        (consumer_sets_priceDifference service_store service_marketData 5)
      = Some (Some (VNumber (Fin 0)))"
  unfolding service_store_def service_marketData_def service_built fst_conv snd_conv
  by (simp add: consumer_sets_dex_price_def consumer_sets_rsi_def
        consumer_sets_priceDifference_def getCurrentData_def alloc_def set_prop2_def
        set_prop3_def set_prop_def get_prop_def get_prop2_def get_prop3_def)

end
